theory Spec2Isabelle
  imports Complex_Main "HOL-Library.Word"
begin

section \<open>Clock and reset generation: class \<open>_CRG\<close> of arty_ddr3.py\<close>

subsection \<open>The PLL instance and the four clock domains\<close>

text \<open>
  The parameters of the \<open>PLLE2_BASE\<close> instance. \<open>CLKIN1_PERIOD\<close> is in nanoseconds,
  the phases are in degrees; both are Python floats in the source whose values
  (10.0, 0.0, 90.0) are exact, so they are rationals here. \<open>CLKOUT\<close> lists the
  \<open>(CLKOUTn_DIVIDE, CLKOUTn_PHASE)\<close> pairs for n = 0 .. 4.
\<close>

record plle2_base =
  CLKIN1_PERIOD :: rat
  CLKFBOUT_MULT :: nat
  DIVCLK_DIVIDE :: nat
  CLKOUT :: "(nat \<times> rat) list"

definition crg_pll :: plle2_base where
  "crg_pll = \<lparr> CLKIN1_PERIOD = 10, CLKFBOUT_MULT = 16, DIVCLK_DIVIDE = 1,
               CLKOUT = [(16, 0), (4, 0), (4, 90), (8, 0), (4, 0)] \<rparr>"

text \<open>
  Modelled from the spec: the phase-locked generation stage itself is a vendor primitive
  and not part of the source. The reference frequency is the inverse of the input period,
  the internal (VCO) frequency is the reference times the feedback multiplier over the
  input divider, and every output divides the internal frequency by its own ratio and
  keeps its own phase. Frequencies are in MHz.
\<close>

definition pll_ref_mhz :: "plle2_base \<Rightarrow> rat" where
  "pll_ref_mhz p = 1000 / CLKIN1_PERIOD p"

definition pll_vco_mhz :: "plle2_base \<Rightarrow> rat" where
  "pll_vco_mhz p = pll_ref_mhz p * of_nat (CLKFBOUT_MULT p) / of_nat (DIVCLK_DIVIDE p)"

definition pll_clkout :: "plle2_base \<Rightarrow> nat \<Rightarrow> rat \<times> rat" where
  "pll_clkout p n = (case CLKOUT p ! n of (d, ph) \<Rightarrow> (pll_vco_mhz p / of_nat d, ph))"

text \<open>
  The clock domains in the order they are declared, each with its \<open>reset_less\<close> flag,
  and the four \<open>BUFG\<close> instances that drive the clock of a domain from an output of the
  PLL (output 4 is configured but left unconnected).
\<close>

definition crg_clock_domains :: "(string \<times> bool) list" where
  "crg_clock_domains =
     [(''sys'', False), (''sys4x'', True), (''sys4x_dqs'', True), (''clk200'', False)]"

definition crg_bufg :: "(string \<times> nat) list" where
  "crg_bufg = [(''sys'', 0), (''sys4x'', 1), (''sys4x_dqs'', 2), (''clk200'', 3)]"

definition crg_domain_clocks :: "(string \<times> rat \<times> rat) list" where
  "crg_domain_clocks = map (\<lambda>(name, n). (name, pll_clkout crg_pll n)) crg_bufg"

subsection \<open>Reset gating\<close>

text \<open>
  The asynchronous inputs of the two \<open>AsyncResetSynchronizer\<close> instances, as functions of
  the levels of \<open>pll_locked\<close> and of \<open>rst\<close>, the signal requested as \<open>cpu_reset\<close>. Both are
  one bit wide, so \<open>~\<close> is negation and \<open>|\<close> is disjunction.
\<close>

definition cd_sys_async_reset :: "bool \<Rightarrow> bool \<Rightarrow> bool" where
  "cd_sys_async_reset pll_locked rst = (\<not> pll_locked \<or> \<not> rst)"

definition cd_clk200_async_reset :: "bool \<Rightarrow> bool \<Rightarrow> bool" where
  "cd_clk200_async_reset pll_locked rst = (\<not> pll_locked \<or> rst)"



text \<open>
  Modelled from the spec: \<open>AsyncResetSynchronizer\<close> is imported by the source, its body is
  not part of it. The specification calls it asynchronous-assert, synchronous-release:
  two flip-flops in a chain, both set at once while the asynchronous input is asserted;
  when it is not, a clock tick of the domain shifts a zero through the chain, so the
  reset of the domain is released at the second tick.
\<close>

record rsync =
  rst_meta :: bool
  cd_rst :: bool

definition rsync_step :: "bool \<Rightarrow> rsync \<Rightarrow> rsync" where
  "rsync_step async_reset s =
     (if async_reset then \<lparr> rst_meta = True, cd_rst = True \<rparr>
      else \<lparr> rst_meta = False, cd_rst = rst_meta s \<rparr>)"

fun rsync_run :: "bool list \<Rightarrow> rsync \<Rightarrow> rsync list" where
  "rsync_run [] s = []"
| "rsync_run (a # as) s = rsync_step a s # rsync_run as (rsync_step a s)"

text \<open>
  The reset of each gated domain over a sequence of time steps; a step gives the levels
  of \<open>pll_locked\<close> and \<open>rst\<close> at that step, and the result lists the state of the
  synchronizer at every step.
\<close>

definition cd_sys_trace :: "(bool \<times> bool) list \<Rightarrow> rsync \<Rightarrow> rsync list" where
  "cd_sys_trace ins s = rsync_run (map (\<lambda>(pll_locked, rst). cd_sys_async_reset pll_locked rst) ins) s"

definition cd_clk200_trace :: "(bool \<times> bool) list \<Rightarrow> rsync \<Rightarrow> rsync list" where
  "cd_clk200_trace ins s =
     rsync_run (map (\<lambda>(pll_locked, rst). cd_clk200_async_reset pll_locked rst) ins) s"

subsection \<open>Calibration countdown\<close>

text \<open>
  \<open>reset_counter = Signal(4, reset=15)\<close> and \<open>ic_reset = Signal(reset=1)\<close>, and the
  statement clocked by the \<open>clk200\<close> domain. The counter is four bits wide, so the
  subtraction is modulo 16. \<open>cd_clk200\<close> is a clock domain with a reset, the one driven
  by the second synchronizer above: on a clock edge of the domain with that reset
  asserted both signals are loaded with their \<open>reset\<close> values, which are also the values
  they power on with, and the statement has no effect; on an edge with the reset released
  the statement is executed.
\<close>

record calib =
  reset_counter :: "4 word"
  ic_reset :: bool

definition calib_init :: calib where
  "calib_init = \<lparr> reset_counter = 15, ic_reset = True \<rparr>"

definition clk200_tick :: "bool \<Rightarrow> calib \<Rightarrow> calib" where
  "clk200_tick cd_clk200_rst s =
     (if cd_clk200_rst then \<lparr> reset_counter = 15, ic_reset = True \<rparr>
      else if reset_counter s \<noteq> 0 then s\<lparr> reset_counter := reset_counter s - 1 \<rparr>
      else s\<lparr> ic_reset := False \<rparr>)"

text \<open>
  A run of clock edges, given the level of the domain's reset at each edge, first edge
  first.
\<close>

fun clk200_ticks :: "bool list \<Rightarrow> calib \<Rightarrow> calib" where
  "clk200_ticks [] s = s"
| "clk200_ticks (r # rs) s = clk200_ticks rs (clk200_tick r s)"

section \<open>Memory timing specification: class \<open>MT41K128M16\<close>\<close>

text \<open>
  The class attributes of the device. The geometry is Python integers; the timings are in
  nanoseconds, Python numbers whose values are exact binary fractions, so rationals.
\<close>

record sdram_module =
  memtype :: string
  nbanks :: int
  nrows :: int
  ncols :: int
  tRP :: rat
  tRCD :: rat
  tWR :: rat
  tWTR :: rat
  tREFI :: rat
  tRFC :: rat

definition MT41K128M16 :: sdram_module where
  "MT41K128M16 =
     \<lparr> memtype = ''DDR3'', nbanks = 8, nrows = 16384, ncols = 1024,
       tRP = 13.75, tRCD = 13.75, tWR = 15, tWTR = 8,
       tREFI = 64 * 1000 * 1000 / 8192, tRFC = 160 \<rparr>"

datatype error = AssertionError | ConfigurationError

record geom_settings =
  gs_nbanks :: int
  gs_nrows :: int
  gs_ncols :: int

record timing_settings =
  ts_tRP :: int
  ts_tRCD :: int
  ts_tWR :: int
  ts_tWTR :: int
  ts_tREFI :: int
  ts_tRFC :: int

text \<open>
  Modelled from the spec: the constructor of the base class \<open>SDRAMModule\<close>, which the
  source calls as \<open>MT41K128M16(self.clk_freq, "1:4")\<close>, is not part of the source. By the
  specification it checks that the geometry is powers of two (at least 1) and that no
  timing is negative, fails with an assertion otherwise, and resolves every timing to
  clock cycles as the ceiling of the nanosecond value times the clock frequency (in Hz,
  hence the factor of 10^9 nanoseconds per second).
\<close>

fun pow2 :: "nat \<Rightarrow> bool" where
  "pow2 n = (if n \<le> 1 then n = 1 else even n \<and> pow2 (n div 2))"

declare pow2.simps [simp del]

definition is_pow2 :: "int \<Rightarrow> bool" where
  "is_pow2 n = (1 \<le> n \<and> pow2 (nat n))"

definition valid_geometry :: "sdram_module \<Rightarrow> bool" where
  "valid_geometry m = (is_pow2 (nbanks m) \<and> is_pow2 (nrows m) \<and> is_pow2 (ncols m))"

definition timings :: "sdram_module \<Rightarrow> rat list" where
  "timings m = [tRP m, tRCD m, tWR m, tWTR m, tREFI m, tRFC m]"

definition negative_timing :: "sdram_module \<Rightarrow> bool" where
  "negative_timing m = list_ex (\<lambda>t. t < 0) (timings m)"

definition ns_to_cycles :: "int \<Rightarrow> rat \<Rightarrow> int" where
  "ns_to_cycles clk_freq t = \<lceil>t * of_int clk_freq / 1000000000\<rceil>"

definition SDRAMModule_init ::
  "sdram_module \<Rightarrow> int \<Rightarrow> string \<Rightarrow> error + geom_settings \<times> timing_settings" where
  "SDRAMModule_init m clk_freq rate =
     (if \<not> valid_geometry m then Inl AssertionError
      else if negative_timing m then Inl AssertionError
      else Inr (\<lparr> gs_nbanks = nbanks m, gs_nrows = nrows m, gs_ncols = ncols m \<rparr>,
                \<lparr> ts_tRP = ns_to_cycles clk_freq (tRP m),
                  ts_tRCD = ns_to_cycles clk_freq (tRCD m),
                  ts_tWR = ns_to_cycles clk_freq (tWR m),
                  ts_tWTR = ns_to_cycles clk_freq (tWTR m),
                  ts_tREFI = ns_to_cycles clk_freq (tREFI m),
                  ts_tRFC = ns_to_cycles clk_freq (tRFC m) \<rparr>))"

section \<open>SoC composition: class \<open>BaseSoC\<close>\<close>

subsection \<open>The register map\<close>

text \<open>
  \<open>csr_map\<close> is a dictionary literal updated with the dictionary inherited from
  \<open>SoCSDRAM\<close>. A dictionary is an association list in insertion order; \<open>dict.update\<close>
  stores every entry of its argument in turn, overwriting the value of a key that is
  already there and appending a new key. The inherited dictionary is not part of the
  source and is a parameter.
\<close>

type_synonym csr_map = "(string \<times> nat) list"

fun dict_set :: "'k \<Rightarrow> 'v \<Rightarrow> ('k \<times> 'v) list \<Rightarrow> ('k \<times> 'v) list" where
  "dict_set k v [] = [(k, v)]"
| "dict_set k v ((k', v') # d) = (if k' = k then (k, v) # d else (k', v') # dict_set k v d)"

fun dict_update :: "('k \<times> 'v) list \<Rightarrow> ('k \<times> 'v) list \<Rightarrow> ('k \<times> 'v) list" where
  "dict_update d [] = d"
| "dict_update d ((k, v) # other) = dict_update (dict_set k v d) other"

definition BaseSoC_csr_literal :: csr_map where
  "BaseSoC_csr_literal = [(''ddrphy'', 17), (''dna'', 18), (''xadc'', 19), (''analyzer'', 20)]"

definition BaseSoC_csr_map :: "csr_map \<Rightarrow> csr_map" where
  "BaseSoC_csr_map SoCSDRAM_csr_map = dict_update BaseSoC_csr_literal SoCSDRAM_csr_map"

text \<open>
  Modelled from the spec: the inherited offsets are reserved addresses below a floor
  value; the floor taken here is the smallest offset of the literal.
\<close>

definition below_floor :: "csr_map \<Rightarrow> bool" where
  "below_floor inherited = list_all (\<lambda>(name, off). off < 17) inherited"

subsection \<open>The composition\<close>

text \<open>
  The state that \<open>BaseSoC.__init__\<close> builds: the resources handed out by the platform,
  the submodules in the order they are attached, the processor or bridge, the bus
  masters, the memory binding and the capture engine.
\<close>

datatype master = CPU string | UARTWishboneBridge int int

record soc =
  claimed :: "string list"
  clk_freq :: int
  submodules :: "string list"
  cpu_or_bridge :: "master option"
  wb_masters :: "master list"
  sdram :: "(string \<times> string \<times> geom_settings \<times> timing_settings) option"
  analyzer :: "(string list \<times> nat) option"

fun run_ops :: "('s \<Rightarrow> error + 's) list \<Rightarrow> 's \<Rightarrow> error + 's" where
  "run_ops [] s = Inr s"
| "run_ops (f # fs) s = (case f s of Inl e \<Rightarrow> Inl e | Inr s' \<Rightarrow> run_ops fs s')"

definition add_submodule :: "string \<Rightarrow> soc \<Rightarrow> error + soc" where
  "add_submodule name s = Inr (s\<lparr> submodules := submodules s @ [name] \<rparr>)"

text \<open>
  Modelled from the spec: the platform and the framework class \<open>SoCSDRAM\<close> are not part of
  the source. A platform resource is a single-use claim, and requesting a claimed one is
  a configuration error. The framework instantiates a processor (and registers it as bus
  master) only when a processor type is given, and attaches a serial port and a timer
  only when asked to. Registering a processor or bridge when one is there fails, and so
  does registering a bus master when one is registered. Binding the memory records the
  physical layer, the arbitration scheme and the resolved settings.
\<close>

definition request :: "string \<Rightarrow> soc \<Rightarrow> error + soc" where
  "request name s =
     (if name \<in> set (claimed s) then Inl ConfigurationError
      else Inr (s\<lparr> claimed := claimed s @ [name] \<rparr>))"

definition add_cpu_or_bridge :: "master \<Rightarrow> soc \<Rightarrow> error + soc" where
  "add_cpu_or_bridge m s =
     (if cpu_or_bridge s \<noteq> None then Inl ConfigurationError
      else Inr (s\<lparr> cpu_or_bridge := Some m \<rparr>))"

definition add_wb_master :: "master \<Rightarrow> soc \<Rightarrow> error + soc" where
  "add_wb_master m s =
     (if wb_masters s \<noteq> [] then Inl ConfigurationError
      else Inr (s\<lparr> wb_masters := wb_masters s @ [m] \<rparr>))"

definition register_sdram ::
  "string \<Rightarrow> string \<Rightarrow> geom_settings \<Rightarrow> timing_settings \<Rightarrow> soc \<Rightarrow> error + soc" where
  "register_sdram phy controller g t s = Inr (s\<lparr> sdram := Some (phy, controller, g, t) \<rparr>)"

definition SoCSDRAM_init ::
  "string list \<Rightarrow> int \<Rightarrow> string option \<Rightarrow> int \<Rightarrow> bool \<Rightarrow> bool \<Rightarrow> error + soc" where
  "SoCSDRAM_init platform freq cpu_type l2_size with_uart with_timer =
     run_ops
       ((case cpu_type of None \<Rightarrow> []
         | Some c \<Rightarrow> [add_cpu_or_bridge (CPU c), add_wb_master (CPU c)]) @
        (if with_uart then [add_submodule ''uart_phy'', add_submodule ''uart''] else []) @
        (if with_timer then [add_submodule ''timer0''] else []))
       \<lparr> claimed = platform, clk_freq = freq, submodules = [], cpu_or_bridge = None,
         wb_masters = [], sdram = None, analyzer = None \<rparr>"

text \<open>
  The signals collected for the capture engine: fifteen of each of the two phases
  \<open>p0\<close> and \<open>p1\<close> of the physical layer's interface, in the order of the source.
\<close>

definition dfi_phase_signals :: "string \<Rightarrow> string list" where
  "dfi_phase_signals p =
     map (\<lambda>n. ''ddrphy.dfi.'' @ p @ ''.'' @ n)
       [''address'', ''bank'', ''cas_n'', ''cs_n'', ''ras_n'', ''we_n'', ''cke'', ''odt'',
        ''reset_n'', ''wrdata'', ''wrdata_en'', ''wrdata_mask'', ''rddata_en'', ''rddata'',
        ''rddata_valid'']"

definition analyzer_signals :: "string list" where
  "analyzer_signals = dfi_phase_signals ''p0'' @ dfi_phase_signals ''p1''"

definition add_analyzer :: "string list \<Rightarrow> nat \<Rightarrow> soc \<Rightarrow> error + soc" where
  "add_analyzer signals depth s =
     Inr (s\<lparr> analyzer := Some (signals, depth), submodules := submodules s @ [''analyzer''] \<rparr>)"

text \<open>
  \<open>_CRG.__init__\<close> requests the reference clock and the reset; the rest of it is the
  first section of this theory.
\<close>

definition CRG_init :: "soc \<Rightarrow> error + soc" where
  "CRG_init = run_ops [request ''clk100'', request ''cpu_reset'']"

definition bind_sdram :: "soc \<Rightarrow> error + soc" where
  "bind_sdram s =
     (case SDRAMModule_init MT41K128M16 (clk_freq s) ''1:4'' of
        Inl e \<Rightarrow> Inl e
      | Inr (g, t) \<Rightarrow> register_sdram ''ddrphy'' ''minicon'' g t s)"

text \<open>
  \<open>BaseSoC.__init__\<close>, statement by statement. The source has the statement that attaches
  the capture engine commented out: the source as it stands is \<open>debug_tap = False\<close>, and
  \<open>debug_tap = True\<close> is the source with that statement restored.
\<close>

definition BaseSoC_init :: "bool \<Rightarrow> string list \<Rightarrow> error + soc" where
  "BaseSoC_init debug_tap platform =
     (case SoCSDRAM_init platform (100 * 1000000) None 0 False False of
        Inl e \<Rightarrow> Inl e
      | Inr s \<Rightarrow>
          run_ops
            ([CRG_init, add_submodule ''crg'',
              add_submodule ''dna'',
              add_submodule ''xadc'',
              request ''ddram'', add_submodule ''ddrphy'',
              bind_sdram,
              request ''serial'',
              add_cpu_or_bridge (UARTWishboneBridge (100 * 1000000) 115200),
              add_wb_master (UARTWishboneBridge (100 * 1000000) 115200)] @
             (if debug_tap then [add_analyzer analyzer_signals 1024] else []))
            s)"

text \<open>The platform resources the composition requests are still to be had.\<close>

definition available :: "string list \<Rightarrow> bool" where
  "available platform =
     list_all (\<lambda>r. r \<notin> set platform) [''clk100'', ''cpu_reset'', ''ddram'', ''serial'']"

definition captured_signals :: "soc \<Rightarrow> string list" where
  "captured_signals s = (case analyzer s of None \<Rightarrow> [] | Some (signals, depth) \<Rightarrow> signals)"

text \<open>
  The register offsets a composition consumes: those of the map whose name is an attached
  submodule.
\<close>

definition consumed_offsets :: "csr_map \<Rightarrow> soc \<Rightarrow> nat list" where
  "consumed_offsets m s = map snd (filter (\<lambda>(name, off). name \<in> set (submodules s)) m)"

section \<open>Properties of the clock and reset generation\<close>

subsection \<open>Clock domains\<close>

text \<open>
  C5: with the 10 ns reference (100 MHz), the multiplier 16 (a 1600 MHz internal
  frequency) and the divide and phase table of the source, the four clock domains are
  driven at 100 MHz and 0 degrees (\<open>sys\<close>), 400 MHz and 0 degrees (\<open>sys4x\<close>), 400 MHz and
  90 degrees (\<open>sys4x_dqs\<close>) and 200 MHz and 0 degrees (\<open>clk200\<close>). The outputs are a
  function of the table, so the same table gives the same outputs every time.
\<close>

theorem crg_four_domains:
  "pll_ref_mhz crg_pll = 100 \<and> pll_vco_mhz crg_pll = 1600 \<and>
   map fst (take 4 (CLKOUT crg_pll)) = [16, 4, 4, 8] \<and>
   map snd (take 4 (CLKOUT crg_pll)) = [0, 0, 90, 0] \<and>
   crg_domain_clocks =
     [(''sys'', 100, 0), (''sys4x'', 400, 0), (''sys4x_dqs'', 400, 90), (''clk200'', 200, 0)]"
  by (simp add: crg_domain_clocks_def crg_bufg_def pll_clkout_def pll_vco_mhz_def
      pll_ref_mhz_def crg_pll_def)

subsection \<open>Reset gating\<close>



lemma rsync_run_length: "length (rsync_run as s) = length as"
  by (induction as arbitrary: s) simp_all

lemma rsync_run_asserted:
  "k < length as \<Longrightarrow> as ! k \<Longrightarrow> cd_rst (rsync_run as s ! k)"
proof (induction as arbitrary: s k)
  case Nil
  then show ?case by simp
next
  case (Cons a as)
  show ?case
  proof (cases k)
    case 0
    with Cons.prems show ?thesis by (simp add: rsync_step_def)
  next
    case (Suc j)
    with Cons.prems have "j < length as" and "as ! j" by simp_all
    from Cons.IH [OF this] Suc show ?thesis by simp
  qed
qed

text \<open>
  C4: the domains with a reset are \<open>sys\<close> and \<open>clk200\<close>, and at every time step at which
  \<open>pll_locked\<close> is low the reset of both is asserted, whatever the level of \<open>rst\<close>, the
  earlier steps and the state the synchronizers started in. So neither reset is released
  before the PLL reports lock.
\<close>

theorem no_release_before_lock:
  assumes "k < length ins" and "\<not> fst (ins ! k)"
  shows "map fst (filter (\<lambda>(name, reset_less). \<not> reset_less) crg_clock_domains) =
           [''sys'', ''clk200''] \<and>
         length (cd_sys_trace ins s) = length ins \<and>
         length (cd_clk200_trace ins s') = length ins \<and>
         cd_rst (cd_sys_trace ins s ! k) \<and> cd_rst (cd_clk200_trace ins s' ! k)"
proof -
  obtain l r where lr: "ins ! k = (l, r)" by (cases "ins ! k")
  with assms(2) have "\<not> l" by simp
  with assms(1) lr have "cd_rst (cd_sys_trace ins s ! k)"
    unfolding cd_sys_trace_def
    by (intro rsync_run_asserted) (simp_all add: cd_sys_async_reset_def)
  moreover from \<open>\<not> l\<close> assms(1) lr have "cd_rst (cd_clk200_trace ins s' ! k)"
    unfolding cd_clk200_trace_def
    by (intro rsync_run_asserted) (simp_all add: cd_clk200_async_reset_def)
  ultimately show ?thesis
    by (simp add: crg_clock_domains_def cd_sys_trace_def cd_clk200_trace_def rsync_run_length)
qed

theorem no_release_before_lock_witness:
  "(1::nat) < length [(False, True), (False, False), (True, True)] \<and>
   \<not> fst ([(False, True), (False, False), (True, True)] ! 1) \<and>
   cd_rst (cd_sys_trace [(False, True), (False, False), (True, True)]
             \<lparr> rst_meta = False, cd_rst = False \<rparr> ! 1) \<and>
   cd_rst (cd_clk200_trace [(False, True), (False, False), (True, True)]
             \<lparr> rst_meta = False, cd_rst = False \<rparr> ! 1)"
  using no_release_before_lock [of 1 "[(False, True), (False, False), (True, True)]"
      "\<lparr> rst_meta = False, cd_rst = False \<rparr>" "\<lparr> rst_meta = False, cd_rst = False \<rparr>"]
  by simp

subsection \<open>Calibration countdown\<close>

lemma counter_le_15: "unat (c :: 4 word) \<le> 15"
proof -
  have "unat c < 2 ^ LENGTH(4)" by (rule unsigned_less)
  then show ?thesis by simp
qed

lemma tick_counter:
  "unat (reset_counter (clk200_tick False s)) = unat (reset_counter s) - 1"
  by (simp add: clk200_tick_def unat_minus_one unat_eq_0)

lemma tick_reset: "clk200_tick True s = calib_init"
  by (simp add: clk200_tick_def calib_init_def)

lemma clk200_ticks_append:
  "clk200_ticks (xs @ ys) s = clk200_ticks ys (clk200_ticks xs s)"
  by (induction xs arbitrary: s) simp_all

lemma released_Suc:
  "clk200_ticks (replicate (Suc n) False) s =
     clk200_tick False (clk200_ticks (replicate n False) s)"
proof -
  have "replicate (Suc n) False = replicate n False @ [False]"
    by (simp add: replicate_append_same)
  then show ?thesis by (simp only: clk200_ticks_append clk200_ticks.simps)
qed

lemma ticks_counter:
  "unat (reset_counter (clk200_ticks (replicate n False) s)) = unat (reset_counter s) - n"
  by (induction n arbitrary: s) (simp_all add: tick_counter)

lemma ticks_counter_init:
  "unat (reset_counter (clk200_ticks (replicate n False) calib_init)) = 15 - n"
  by (simp add: ticks_counter calib_init_def)

lemma ticks_ic_init: "ic_reset (clk200_ticks (replicate n False) calib_init) \<longleftrightarrow> n \<le> 15"
proof (induction n)
  case 0
  show ?case by (simp add: calib_init_def)
next
  case (Suc n)
  note c = ticks_counter_init [of n]
  show ?case
  proof (cases "n < 15")
    case True
    with c have "reset_counter (clk200_ticks (replicate n False) calib_init) \<noteq> 0"
      by (auto simp add: unat_eq_0)
    with Suc True show ?thesis
      unfolding released_Suc by (simp add: clk200_tick_def)
  next
    case False
    with c have "reset_counter (clk200_ticks (replicate n False) calib_init) = 0"
      by (simp add: unat_eq_0)
    with False show ?thesis
      unfolding released_Suc by (simp add: clk200_tick_def)
  qed
qed

lemma tick_ic_false: "\<not> ic_reset s \<Longrightarrow> \<not> ic_reset (clk200_tick False s)"
  by (simp add: clk200_tick_def)

lemma ticks_ic_false: "\<not> ic_reset s \<Longrightarrow> \<not> ic_reset (clk200_ticks (replicate n False) s)"
  by (induction n arbitrary: s) (simp_all add: tick_ic_false)

lemma sixteen_released_edges:
  "clk200_ticks (replicate 16 False) calib_init = \<lparr> reset_counter = 0, ic_reset = False \<rparr>"
proof -
  from ticks_counter_init [of 16]
  have "reset_counter (clk200_ticks (replicate 16 False) calib_init) = 0"
    by (simp add: unat_eq_0)
  moreover from ticks_ic_init [of 16]
  have "\<not> ic_reset (clk200_ticks (replicate 16 False) calib_init)" by simp
  ultimately show ?thesis
    by (cases "clk200_ticks (replicate 16 False) calib_init") simp
qed

text \<open>
  C2, as stated, fails twice. After fifteen edges with the reset released the counter is
  zero and the output is still true: it is cleared by the sixteenth, which is the first
  to find the counter at zero. And the sequence re-arms without a power-on: with the PLL
  locked and \<open>rst\<close> high the reset of the \<open>clk200\<close> domain is asserted, and one edge
  with it asserted after the output has fallen loads the counter with 15 and sets the
  output again.
\<close>

theorem calibration_one_shot_counterexample:
  "\<not> (ic_reset (clk200_ticks (replicate 15 False) calib_init) \<longleftrightarrow> (15::nat) < 15) \<and>
   reset_counter (clk200_ticks (replicate 15 False) calib_init) = 0 \<and>
   \<not> ic_reset (clk200_ticks (replicate 16 False) calib_init) \<and>
   cd_rst (rsync_step (cd_clk200_async_reset True True) \<lparr> rst_meta = False, cd_rst = False \<rparr>) \<and>
   clk200_ticks (replicate 16 False @ [True]) calib_init = calib_init"
proof -
  from ticks_counter_init [of 15]
  have "reset_counter (clk200_ticks (replicate 15 False) calib_init) = 0"
    by (simp add: unat_eq_0)
  moreover have "ic_reset (clk200_ticks (replicate 15 False) calib_init)"
    by (simp add: ticks_ic_init)
  moreover have "\<not> ic_reset (clk200_ticks (replicate 16 False) calib_init)"
    by (simp add: ticks_ic_init)
  moreover have "cd_rst (rsync_step (cd_clk200_async_reset True True)
      \<lparr> rst_meta = False, cd_rst = False \<rparr>)"
    by (simp add: rsync_step_def cd_clk200_async_reset_def)
  moreover have "clk200_ticks (replicate 16 False @ [True]) calib_init = calib_init"
    by (simp only: clk200_ticks_append clk200_ticks.simps tick_reset)
  ultimately show ?thesis by simp
qed

text \<open>
  C2, amended: the counter starts at 15 with the output true, and an edge with the reset
  released at a nonzero counter takes one off it and leaves the output alone. After \<open>n\<close>
  edges with the reset released the counter is \<open>15 - n\<close> (zero from the fifteenth edge on)
  and the output is true exactly when \<open>n \<le> 15\<close>: the sixteenth edge clears it, so it is
  asserted over 16 clock periods, and once false it stays false as long as the reset
  stays released. An edge with the reset of the domain asserted loads 15 and sets the
  output, whatever came before, and the sequence runs again from there: it re-arms at
  every reset of the \<open>clk200\<close> domain, not only at power-on.
\<close>

theorem calibration_one_shot:
  "reset_counter calib_init = 15 \<and> ic_reset calib_init \<and>
   (reset_counter s \<noteq> 0 \<longrightarrow>
      clk200_tick False s = s\<lparr> reset_counter := reset_counter s - 1 \<rparr> \<and>
      unat (reset_counter (clk200_tick False s)) + 1 = unat (reset_counter s)) \<and>
   unat (reset_counter (clk200_ticks (replicate n False) calib_init)) = 15 - n \<and>
   (ic_reset (clk200_ticks (replicate n False) calib_init) \<longleftrightarrow> n \<le> 15) \<and>
   (\<not> ic_reset s \<longrightarrow> \<not> ic_reset (clk200_ticks (replicate k False) s)) \<and>
   clk200_tick True s = calib_init \<and>
   clk200_ticks (rs @ True # replicate n False) s = clk200_ticks (replicate n False) calib_init"
proof -
  have a: "reset_counter calib_init = 15 \<and> ic_reset calib_init"
    by (simp add: calib_init_def)
  have b: "reset_counter s \<noteq> 0 \<longrightarrow>
      clk200_tick False s = s\<lparr> reset_counter := reset_counter s - 1 \<rparr> \<and>
      unat (reset_counter (clk200_tick False s)) + 1 = unat (reset_counter s)"
  proof
    assume nz: "reset_counter s \<noteq> 0"
    then have "unat (reset_counter s) \<noteq> 0" by (simp add: unat_eq_0)
    with tick_counter [of s]
    have "unat (reset_counter (clk200_tick False s)) + 1 = unat (reset_counter s)" by simp
    moreover from nz have "clk200_tick False s = s\<lparr> reset_counter := reset_counter s - 1 \<rparr>"
      by (simp add: clk200_tick_def)
    ultimately show "clk200_tick False s = s\<lparr> reset_counter := reset_counter s - 1 \<rparr> \<and>
      unat (reset_counter (clk200_tick False s)) + 1 = unat (reset_counter s)" by blast
  qed
  have c: "\<not> ic_reset s \<longrightarrow> \<not> ic_reset (clk200_ticks (replicate k False) s)"
    by (simp add: ticks_ic_false)
  have d: "clk200_ticks (rs @ True # replicate n False) s =
      clk200_ticks (replicate n False) calib_init"
    by (simp only: clk200_ticks_append clk200_ticks.simps tick_reset)
  from a b c d ticks_counter_init [of n] ticks_ic_init [of n] tick_reset [of s]
  show ?thesis by blast
qed

theorem calibration_one_shot_witness:
  "reset_counter \<lparr> reset_counter = 3, ic_reset = True \<rparr> \<noteq> 0 \<and>
   clk200_tick False \<lparr> reset_counter = 3, ic_reset = True \<rparr> =
     \<lparr> reset_counter = 2, ic_reset = True \<rparr> \<and>
   ic_reset (clk200_ticks (replicate 15 False) calib_init) \<and>
   \<not> ic_reset (clk200_ticks (replicate 16 False) calib_init) \<and>
   ic_reset (clk200_ticks ([False, False] @ True # replicate 15 False)
     \<lparr> reset_counter = 3, ic_reset = True \<rparr>)"
proof -
  note t = calibration_one_shot [of "\<lparr> reset_counter = 3, ic_reset = True \<rparr>" 15 0
      "[False, False]"]
  note u = calibration_one_shot [of "\<lparr> reset_counter = 3, ic_reset = True \<rparr>" 16 0 "[]"]
  have "reset_counter \<lparr> reset_counter = 3, ic_reset = True \<rparr> \<noteq> 0" by simp
  moreover from this t
  have "clk200_tick False \<lparr> reset_counter = 3, ic_reset = True \<rparr> =
      \<lparr> reset_counter = 2, ic_reset = True \<rparr>" by simp
  moreover from t have "ic_reset (clk200_ticks (replicate 15 False) calib_init)" by simp
  moreover from u have "\<not> ic_reset (clk200_ticks (replicate 16 False) calib_init)" by simp
  moreover from t have "ic_reset (clk200_ticks ([False, False] @ True # replicate 15 False)
     \<lparr> reset_counter = 3, ic_reset = True \<rparr>)" by presburger
  ultimately show ?thesis by blast
qed

text \<open>
  C10, as stated, fails at an edge with the reset of the domain asserted: sixteen edges
  with the reset released take the counter from 15 to zero, and the next edge, with the
  reset asserted, loads 15, so the counter is not non-increasing at every tick.
\<close>

theorem counter_never_wraps_counterexample:
  "reset_counter (clk200_ticks (replicate 16 False) calib_init) = 0 \<and>
   reset_counter (clk200_tick True (clk200_ticks (replicate 16 False) calib_init)) = 15 \<and>
   \<not> unat (reset_counter (clk200_tick True (clk200_ticks (replicate 16 False) calib_init)))
       \<le> unat (reset_counter (clk200_ticks (replicate 16 False) calib_init))"
  by (simp only: sixteen_released_edges tick_reset) (simp add: calib_init_def)

text \<open>
  C10, amended: the counter never wraps or underflows. After any run of edges from the
  initial state its value lies within 0 .. 15. An edge with the reset of the domain
  released leaves it at its predecessor, or at zero when it is zero, because the
  four-bit subtraction, which would give 15 at zero, is not reached there; so it is
  non-increasing over such edges. It increases only at an edge with the reset asserted,
  which loads 15.
\<close>

theorem counter_never_wraps:
  "unat (reset_counter (clk200_ticks rs calib_init)) \<le> 15 \<and>
   unat (reset_counter (clk200_tick False s)) = unat (reset_counter s) - 1 \<and>
   unat (reset_counter (clk200_tick False s)) \<le> unat (reset_counter s) \<and>
   (reset_counter s = 0 \<longrightarrow> reset_counter (clk200_tick False s) = 0) \<and>
   reset_counter (clk200_tick True s) = 15 \<and>
   (unat (reset_counter s) < unat (reset_counter (clk200_tick r s)) \<longrightarrow> r)"
proof -
  have a: "unat (reset_counter (clk200_tick False s)) = unat (reset_counter s) - 1"
    by (rule tick_counter)
  then have b: "unat (reset_counter (clk200_tick False s)) \<le> unat (reset_counter s)"
    by simp
  have c: "reset_counter s = 0 \<longrightarrow> reset_counter (clk200_tick False s) = 0"
    by (simp add: clk200_tick_def)
  have d: "reset_counter (clk200_tick True s) = 15"
    by (simp add: clk200_tick_def)
  have e: "unat (reset_counter s) < unat (reset_counter (clk200_tick r s)) \<longrightarrow> r"
    using b by (cases r) simp_all
  from a b c d e counter_le_15 [of "reset_counter (clk200_ticks rs calib_init)"]
  show ?thesis by blast
qed

theorem counter_never_wraps_witness:
  "reset_counter \<lparr> reset_counter = 0, ic_reset = False \<rparr> = 0 \<and>
   reset_counter (clk200_tick False \<lparr> reset_counter = 0, ic_reset = False \<rparr>) = 0 \<and>
   unat (reset_counter \<lparr> reset_counter = 0, ic_reset = False \<rparr>)
     < unat (reset_counter (clk200_tick True \<lparr> reset_counter = 0, ic_reset = False \<rparr>)) \<and>
   unat (reset_counter (clk200_ticks [False, True, False, False] calib_init)) \<le> 15"
proof -
  note t = counter_never_wraps [of "[False, True, False, False]"
      "\<lparr> reset_counter = 0, ic_reset = False \<rparr>" True]
  have "unat (reset_counter \<lparr> reset_counter = 0, ic_reset = False \<rparr>)
     < unat (reset_counter (clk200_tick True \<lparr> reset_counter = 0, ic_reset = False \<rparr>))"
    by (simp add: clk200_tick_def)
  with t show ?thesis by simp
qed

section \<open>Properties of the memory timing specification\<close>

lemma pow2_iff: "pow2 n \<longleftrightarrow> (\<exists>k. n = 2 ^ k)"
proof (induction n rule: pow2.induct)
  case (1 n)
  show ?case
  proof (cases "n \<le> 1")
    case True
    show ?thesis
    proof (cases "n = 1")
      case True
      then have "pow2 n" by (subst pow2.simps) simp
      moreover from True have "n = 2 ^ 0" by simp
      ultimately show ?thesis by blast
    next
      case False
      with \<open>n \<le> 1\<close> have "n = 0" by simp
      then show ?thesis by (subst pow2.simps) simp
    qed
  next
    case False
    then have IH: "pow2 (n div 2) \<longleftrightarrow> (\<exists>k. n div 2 = 2 ^ k)" by (rule 1)
    have unf: "pow2 n \<longleftrightarrow> even n \<and> pow2 (n div 2)"
      using False by (subst pow2.simps) simp
    show ?thesis
    proof
      assume "pow2 n"
      with unf IH obtain k where "even n" "n div 2 = 2 ^ k" by blast
      then have "n = 2 ^ Suc k" by auto
      then show "\<exists>k. n = 2 ^ k" by blast
    next
      assume "\<exists>k. n = 2 ^ k"
      then obtain k where k: "n = 2 ^ k" by blast
      with False have "k \<noteq> 0" by (cases k) auto
      then obtain j where j: "k = Suc j" by (cases k) auto
      with k have "even n" "n div 2 = 2 ^ j" by simp_all
      with unf IH show "pow2 n" by blast
    qed
  qed
qed

lemma is_pow2_iff: "is_pow2 n \<longleftrightarrow> (\<exists>k. n = 2 ^ k)"
proof
  assume "is_pow2 n"
  then have "1 \<le> n" and "pow2 (nat n)" by (simp_all add: is_pow2_def)
  then obtain k where "nat n = 2 ^ k" by (auto simp add: pow2_iff)
  then have "int (nat n) = 2 ^ k" by simp
  with \<open>1 \<le> n\<close> have "n = 2 ^ k" by simp
  then show "\<exists>k. n = 2 ^ k" by blast
next
  assume "\<exists>k. n = 2 ^ k"
  then obtain k where k: "n = 2 ^ k" by blast
  then have "1 \<le> n" by simp
  moreover from k have "nat n = 2 ^ k" by (simp add: nat_power_eq)
  ultimately show "is_pow2 n" by (auto simp add: is_pow2_def pow2_iff)
qed

lemma MT41K128M16_valid: "valid_geometry MT41K128M16"
  by (simp add: valid_geometry_def MT41K128M16_def is_pow2_def pow2.simps)

lemma MT41K128M16_nonneg: "\<not> negative_timing MT41K128M16"
  by (simp add: negative_timing_def timings_def MT41K128M16_def)

lemma MT41K128M16_settings:
  "SDRAMModule_init MT41K128M16 (100 * 1000000) ''1:4'' =
     Inr (\<lparr> gs_nbanks = 8, gs_nrows = 16384, gs_ncols = 1024 \<rparr>,
          \<lparr> ts_tRP = 2, ts_tRCD = 2, ts_tWR = 2, ts_tWTR = 1, ts_tREFI = 782, ts_tRFC = 16 \<rparr>)"
  by (simp add: SDRAMModule_init_def MT41K128M16_valid MT41K128M16_nonneg)
     (simp add: MT41K128M16_def ns_to_cycles_def ceiling_eq_iff)




text \<open>
  C8: when the bank count, the row count or the column count is not a power of two, or a
  timing is negative, the construction fails with the assertion error at every clock
  frequency and burst ratio, and returns no settings.
\<close>

theorem timing_construction_fails:
  assumes "(\<nexists>a. nbanks m = 2 ^ a) \<or> (\<nexists>b. nrows m = 2 ^ b) \<or> (\<nexists>c. ncols m = 2 ^ c)
           \<or> (\<exists>t \<in> set (timings m). t < 0)"
  shows "SDRAMModule_init m freq rate = Inl AssertionError"
proof (cases "valid_geometry m")
  case True
  with assms have "\<exists>t \<in> set (timings m). t < 0"
    unfolding valid_geometry_def is_pow2_iff by blast
  then have "negative_timing m" by (simp add: negative_timing_def list_ex_iff)
  with True show ?thesis by (simp add: SDRAMModule_init_def)
next
  case False
  then show ?thesis by (simp add: SDRAMModule_init_def)
qed

theorem timing_construction_fails_witness:
  "(\<nexists>a. nbanks (MT41K128M16\<lparr> nbanks := 6 \<rparr>) = 2 ^ a) \<and>
   SDRAMModule_init (MT41K128M16\<lparr> nbanks := 6 \<rparr>) (100 * 1000000) ''1:4'' = Inl AssertionError \<and>
   (\<exists>t \<in> set (timings (MT41K128M16\<lparr> tWR := - 15 \<rparr>)). t < 0) \<and>
   SDRAMModule_init (MT41K128M16\<lparr> tWR := - 15 \<rparr>) (100 * 1000000) ''1:4'' = Inl AssertionError"
proof -
  have "\<not> is_pow2 6" by (simp add: is_pow2_def pow2.simps)
  then have a: "\<nexists>a. nbanks (MT41K128M16\<lparr> nbanks := 6 \<rparr>) = 2 ^ a"
    by (simp add: is_pow2_iff)
  have b: "\<exists>t \<in> set (timings (MT41K128M16\<lparr> tWR := - 15 \<rparr>)). t < 0"
    by (simp add: timings_def)
  from a b
    timing_construction_fails [of "MT41K128M16\<lparr> nbanks := 6 \<rparr>" "100 * 1000000" "''1:4''"]
    timing_construction_fails [of "MT41K128M16\<lparr> tWR := - 15 \<rparr>" "100 * 1000000" "''1:4''"]
  show ?thesis by blast
qed

section \<open>Properties of the composition\<close>

lemma set_dict_set: "set (dict_set k v d) \<subseteq> insert (k, v) (set d)"
  by (induction d) (auto split: if_splits)

lemma set_dict_update: "set (dict_update d other) \<subseteq> set d \<union> set other"
proof (induction d other rule: dict_update.induct)
  case (1 d)
  show ?case by simp
next
  case (2 d k v other)
  with set_dict_set [of k v d] show ?case by auto
qed

lemma csr_entry_origin:
  assumes "below_floor inherited" and "(name, off) \<in> set (BaseSoC_csr_map inherited)"
    and "17 \<le> off"
  shows "(name, off) \<in> set BaseSoC_csr_literal"
proof -
  from assms(2) set_dict_update [of BaseSoC_csr_literal inherited]
  have "(name, off) \<in> set BaseSoC_csr_literal \<or> (name, off) \<in> set inherited"
    by (auto simp add: BaseSoC_csr_map_def)
  moreover from assms(1) have "(name, off) \<in> set inherited \<Longrightarrow> off < 17"
    by (auto simp add: below_floor_def list_all_iff)
  ultimately show ?thesis using assms(3) by auto
qed








lemma BaseSoC_init_result:
  assumes "available platform"
  shows "BaseSoC_init debug_tap platform =
     Inr \<lparr> claimed = platform @ [''clk100'', ''cpu_reset'', ''ddram'', ''serial''],
           clk_freq = 100 * 1000000,
           submodules = [''crg'', ''dna'', ''xadc'', ''ddrphy''] @
                        (if debug_tap then [''analyzer''] else []),
           cpu_or_bridge = Some (UARTWishboneBridge (100 * 1000000) 115200),
           wb_masters = [UARTWishboneBridge (100 * 1000000) 115200],
           sdram = Some (''ddrphy'', ''minicon'',
             \<lparr> gs_nbanks = 8, gs_nrows = 16384, gs_ncols = 1024 \<rparr>,
             \<lparr> ts_tRP = 2, ts_tRCD = 2, ts_tWR = 2, ts_tWTR = 1, ts_tREFI = 782,
               ts_tRFC = 16 \<rparr>),
           analyzer = (if debug_tap then Some (analyzer_signals, 1024) else None) \<rparr>"
  using assms MT41K128M16_settings
  by (simp add: BaseSoC_init_def SoCSDRAM_init_def CRG_init_def request_def add_submodule_def
      bind_sdram_def register_sdram_def add_cpu_or_bridge_def add_wb_master_def
      add_analyzer_def available_def)

text \<open>
  C7: on a platform whose resources are still to be had the composition succeeds, with or
  without the debug tap, and the composed system has one bus master, the serial bridge at
  115200 baud, which is also its processor-or-bridge; no processor is among the masters;
  and registering another bus master, or another processor or bridge, fails.
\<close>

theorem single_bus_master:
  assumes "available platform"
  shows "\<exists>s. BaseSoC_init debug_tap platform = Inr s \<and>
           wb_masters s = [UARTWishboneBridge (100 * 1000000) 115200] \<and>
           cpu_or_bridge s = Some (UARTWishboneBridge (100 * 1000000) 115200) \<and>
           (\<forall>c. CPU c \<notin> set (wb_masters s)) \<and>
           (\<forall>m. add_wb_master m s = Inl ConfigurationError) \<and>
           (\<forall>m. add_cpu_or_bridge m s = Inl ConfigurationError)"
  by (simp add: BaseSoC_init_result [OF assms] add_wb_master_def add_cpu_or_bridge_def)

theorem single_bus_master_witness:
  "available [] \<and>
   (\<exists>s. BaseSoC_init False [] = Inr s \<and> length (wb_masters s) = 1 \<and>
      add_wb_master (CPU ''lm32'') s = Inl ConfigurationError)"
proof -
  have h: "available []" by (simp add: available_def)
  from single_bus_master [OF h, of False] obtain s where
    "BaseSoC_init False [] = Inr s"
    and "wb_masters s = [UARTWishboneBridge (100 * 1000000) 115200]"
    and "\<forall>m. add_wb_master m s = Inl ConfigurationError"
    by blast
  then have "BaseSoC_init False [] = Inr s \<and> length (wb_masters s) = 1 \<and>
      add_wb_master (CPU ''lm32'') s = Inl ConfigurationError"
    by simp
  with h show ?thesis by blast
qed

text \<open>
  C9: on a platform whose resources are still to be had, the composition without the debug
  tap succeeds with no capture engine attached: no captured signal, no submodule named
  \<open>analyzer\<close>. The register map keeps offset 20 for the name \<open>analyzer\<close>, and when the
  inherited offsets lie below the floor no attached submodule consumes it. The composition
  with the debug tap is the same system with the capture engine, holding the collected
  signals at depth 1024, attached as one more submodule, and nothing else changed.
\<close>

theorem debug_tap_disabled:
  assumes "available platform"
  shows "\<exists>s. BaseSoC_init False platform = Inr s \<and>
           analyzer s = None \<and> captured_signals s = [] \<and>
           ''analyzer'' \<notin> set (submodules s) \<and>
           (''analyzer'', 20) \<in> set BaseSoC_csr_literal \<and>
           (below_floor inherited \<longrightarrow>
              20 \<notin> set (consumed_offsets (BaseSoC_csr_map inherited) s)) \<and>
           BaseSoC_init True platform =
             Inr (s\<lparr> analyzer := Some (analyzer_signals, 1024),
                     submodules := submodules s @ [''analyzer''] \<rparr>)"
proof -
  have "20 \<notin> set (consumed_offsets (BaseSoC_csr_map inherited) s)"
    if fl: "below_floor inherited"
      and sub: "submodules s = [''crg'', ''dna'', ''xadc'', ''ddrphy'']"
    for s :: soc
  proof
    assume "20 \<in> set (consumed_offsets (BaseSoC_csr_map inherited) s)"
    then obtain name where in_map: "(name, 20) \<in> set (BaseSoC_csr_map inherited)"
      and used: "name \<in> set (submodules s)"
      by (auto simp add: consumed_offsets_def)
    from csr_entry_origin [OF fl in_map] have "name = ''analyzer''"
      by (auto simp add: BaseSoC_csr_literal_def)
    with used sub show False by simp
  qed
  then show ?thesis
    by (simp add: BaseSoC_init_result [OF assms] captured_signals_def BaseSoC_csr_literal_def)
qed

theorem debug_tap_disabled_witness:
  "available [] \<and> below_floor [(''crg'', 0), (''sdram'', 8), (''l2_cache'', 9)] \<and>
   (\<exists>s. BaseSoC_init False [] = Inr s \<and> captured_signals s = [] \<and>
      20 \<notin> set (consumed_offsets
                  (BaseSoC_csr_map [(''crg'', 0), (''sdram'', 8), (''l2_cache'', 9)]) s))"
proof -
  have h: "available []" by (simp add: available_def)
  have f: "below_floor [(''crg'', 0), (''sdram'', 8), (''l2_cache'', 9)]"
    by (simp add: below_floor_def)
  from debug_tap_disabled [OF h, of "[(''crg'', 0), (''sdram'', 8), (''l2_cache'', 9)]"] h f
  show ?thesis by blast
qed

end
